theory Spec2Isabelle
  imports Complex_Main "HOL-Library.List_Lexorder" "HOL-Library.Product_Lexorder"
begin

section \<open>Values\<close>

text \<open>
  A Python \<open>str\<close> is a sequence of Unicode code points; the column names and the
  markers of the two scripts are Chinese, so a string is a list of code points here.
\<close>

type_synonym ustring = "nat list"

text \<open>
  A cell of a float64 column. Finite values are exact reals (no rounding, no overflow,
  no signed zero); the three special values of IEEE arithmetic are kept, because the
  scripts divide by sums that can be zero and read columns that can hold missing cells.
  \<open>NaN\<close> is also pandas' missing-value marker of a float column.
\<close>

datatype fl = Fin real | PInf | NInf | NaN

fun fadd :: "fl \<Rightarrow> fl \<Rightarrow> fl" where
  "fadd NaN b = NaN"
| "fadd a NaN = NaN"
| "fadd PInf NInf = NaN"
| "fadd NInf PInf = NaN"
| "fadd PInf b = PInf"
| "fadd a PInf = PInf"
| "fadd NInf b = NInf"
| "fadd a NInf = NInf"
| "fadd (Fin x) (Fin y) = Fin (x + y)"

fun fmul :: "fl \<Rightarrow> fl \<Rightarrow> fl" where
  "fmul NaN b = NaN"
| "fmul a NaN = NaN"
| "fmul (Fin x) (Fin y) = Fin (x * y)"
| "fmul PInf (Fin y) = (if 0 < y then PInf else if y < 0 then NInf else NaN)"
| "fmul NInf (Fin y) = (if 0 < y then NInf else if y < 0 then PInf else NaN)"
| "fmul (Fin x) PInf = (if 0 < x then PInf else if x < 0 then NInf else NaN)"
| "fmul (Fin x) NInf = (if 0 < x then NInf else if x < 0 then PInf else NaN)"
| "fmul PInf PInf = PInf"
| "fmul NInf NInf = PInf"
| "fmul PInf NInf = NInf"
| "fmul NInf PInf = NInf"

text \<open>
  Division of float64 columns does not raise: a zero divisor gives an infinity, or
  \<open>NaN\<close> when the dividend is zero too.
\<close>

fun fdiv :: "fl \<Rightarrow> fl \<Rightarrow> fl" where
  "fdiv NaN b = NaN"
| "fdiv a NaN = NaN"
| "fdiv (Fin x) (Fin y) =
     (if y \<noteq> 0 then Fin (x / y)
      else if 0 < x then PInf else if x < 0 then NInf else NaN)"
| "fdiv (Fin x) PInf = Fin 0"
| "fdiv (Fin x) NInf = Fin 0"
| "fdiv PInf (Fin y) = (if 0 \<le> y then PInf else NInf)"
| "fdiv NInf (Fin y) = (if 0 \<le> y then NInf else PInf)"
| "fdiv PInf PInf = NaN"
| "fdiv PInf NInf = NaN"
| "fdiv NInf PInf = NaN"
| "fdiv NInf NInf = NaN"

text \<open>Comparisons: every comparison with \<open>NaN\<close> is false.\<close>

fun fle :: "fl \<Rightarrow> fl \<Rightarrow> bool" where
  "fle NaN b = False"
| "fle a NaN = False"
| "fle NInf b = True"
| "fle a PInf = True"
| "fle (Fin x) (Fin y) = (x \<le> y)"
| "fle PInf b = False"
| "fle a NInf = False"

definition flt :: "fl \<Rightarrow> fl \<Rightarrow> bool" where
  "flt a b = (fle a b \<and> \<not> fle b a)"

definition fge :: "fl \<Rightarrow> fl \<Rightarrow> bool" where
  "fge a b = fle b a"

definition fgt :: "fl \<Rightarrow> fl \<Rightarrow> bool" where
  "fgt a b = flt b a"

definition notna :: "fl \<Rightarrow> bool" where
  "notna x = (x \<noteq> NaN)"

definition isfinite :: "fl \<Rightarrow> bool" where
  "isfinite x = (case x of Fin r \<Rightarrow> True | PInf \<Rightarrow> False | NInf \<Rightarrow> False | NaN \<Rightarrow> False)"

text \<open>
  \<open>Series.round(2)\<close>: the value times 100 is rounded to the nearest integer, a tie
  going to the even one, and divided by 100 again.
\<close>

definition round_half_even :: "real \<Rightarrow> int" where
  "round_half_even y =
     (let f = \<lfloor>y\<rfloor>; d = y - of_int f
      in if d < 1 / 2 then f else if 1 / 2 < d then f + 1
         else if even f then f else f + 1)"

fun fround2 :: "fl \<Rightarrow> fl" where
  "fround2 (Fin x) = Fin (of_int (round_half_even (x * 100)) / 100)"
| "fround2 PInf = PInf"
| "fround2 NInf = NInf"
| "fround2 NaN = NaN"

section \<open>Reductions of a column\<close>

text \<open>
  \<open>sum\<close> skips missing cells and starts from 0, so the sum of an empty or all-missing
  column is 0. \<open>mean\<close> divides the sum of the present cells by their number (0/0, that is
  \<open>NaN\<close>, when none is present).
\<close>

fun isum :: "fl list \<Rightarrow> fl" where
  "isum [] = Fin 0"
| "isum (x # xs) = fadd x (isum xs)"

definition fsum :: "fl list \<Rightarrow> fl" where
  "fsum xs = isum (filter notna xs)"

definition fmean :: "fl list \<Rightarrow> fl" where
  "fmean xs = (let ys = filter notna xs in fdiv (isum ys) (Fin (real (length ys))))"

fun insort_by :: "('a \<Rightarrow> 'a \<Rightarrow> bool) \<Rightarrow> 'a \<Rightarrow> 'a list \<Rightarrow> 'a list" where
  "insort_by le x [] = [x]"
| "insort_by le x (y # ys) = (if le x y then x # y # ys else y # insort_by le x ys)"

fun sort_by :: "('a \<Rightarrow> 'a \<Rightarrow> bool) \<Rightarrow> 'a list \<Rightarrow> 'a list" where
  "sort_by le [] = []"
| "sort_by le (x # xs) = insort_by le x (sort_by le xs)"

text \<open>
  \<open>Series.median()\<close>: the missing cells are skipped; the middle value of the sorted
  rest, or the mean of the two middle values; \<open>NaN\<close> for an empty column.
\<close>

definition median :: "fl list \<Rightarrow> fl" where
  "median xs =
     (let ys = sort_by fle (filter notna xs); n = length ys
      in if n = 0 then NaN
         else if odd n then ys ! (n div 2)
         else fdiv (fadd (ys ! (n div 2 - 1)) (ys ! (n div 2))) (Fin 2))"

section \<open>The classifier of analyze\_products.py\<close>

text \<open>
  A row of the table that \<open>analyze_by_category\<close> returns and \<open>identify_issues\<close>
  reads: the category, the amount (column U+91D1 U+989D), the gross profit (U+6BDB
  U+5229) and the margin rate in percent (U+6BDB U+5229 U+7387).
\<close>

record cat_row =
  cr_category :: ustring
  cr_amount :: fl
  cr_profit :: fl
  cr_rate :: fl

text \<open>
  The dictionary that \<open>identify_issues\<close> returns, one list per tier, in the order of
  the source. Every item of the source's lists is built from one selected row (its
  category and the three numbers printed as text), in the order of the rows; the lists
  hold the selected rows here.
\<close>

record issues =
  high_margin_issues :: "cat_row list"
  low_margin_issues :: "cat_row list"
  zero_margin_issues :: "cat_row list"
  big_low_issues :: "cat_row list"
  small_high_issues :: "cat_row list"

definition identify_issues :: "cat_row list option \<Rightarrow> issues" where
  "identify_issues category_analysis =
     (case category_analysis of
        None \<Rightarrow>
          \<lparr>high_margin_issues = [], low_margin_issues = [], zero_margin_issues = [],
           big_low_issues = [], small_high_issues = []\<rparr>
      | Some t \<Rightarrow>
          (let high_margin = filter (\<lambda>r. fge (cr_rate r) (Fin 18)) t;
               low_margin = filter (\<lambda>r. fle (cr_rate r) (Fin 5)) t;
               zero_margin = filter (\<lambda>r. fle (cr_rate r) (Fin 2)) t;
               median_amount = median (map cr_amount t);
               big_low = filter (\<lambda>r. fge (cr_amount r) median_amount
                                      \<and> flt (cr_rate r) (Fin 10)) t;
               small_high = filter (\<lambda>r. flt (cr_amount r) median_amount
                                         \<and> fge (cr_rate r) (Fin 15)) t
           in \<lparr>high_margin_issues = high_margin, low_margin_issues = low_margin,
               zero_margin_issues = zero_margin, big_low_issues = big_low,
               small_high_issues = small_high\<rparr>))"

section \<open>The loader of price\_analysis.py\<close>

text \<open>
  Column names and markers, as code points: U+4E00 U+7EA7 U+5206 U+7C7B (category),
  U+5546 U+54C1 U+540D U+79F0 (product name), and the four numeric columns, whose names
  share the prefix U+6C42 U+548C U+9879 followed by a colon: U+5B9E U+9645 U+91D1 U+989D
  (actual amount), U+9500 U+552E U+6BDB U+5229 (gross profit), U+6807 U+54C1 U+6BDB
  U+5229 U+7387 (margin rate), U+8D21 U+732E U+503C (contribution value).
  The marker U+6C47 U+603B reads "subtotal", the marker U+603B U+8BA1 "grand total".
\<close>

definition col_category :: ustring where
  "col_category = [0x4E00, 0x7EA7, 0x5206, 0x7C7B]"

definition col_product :: ustring where
  "col_product = [0x5546, 0x54C1, 0x540D, 0x79F0]"

definition col_prefix :: ustring where
  "col_prefix = [0x6C42, 0x548C, 0x9879, 0x3A]"

definition col_amount :: ustring where
  "col_amount = col_prefix @ [0x5B9E, 0x9645, 0x91D1, 0x989D]"

definition col_profit :: ustring where
  "col_profit = col_prefix @ [0x9500, 0x552E, 0x6BDB, 0x5229]"

definition col_margin_rate :: ustring where
  "col_margin_rate = col_prefix @ [0x6807, 0x54C1, 0x6BDB, 0x5229, 0x7387]"

definition col_contribution :: ustring where
  "col_contribution = col_prefix @ [0x8D21, 0x732E, 0x503C]"

definition NUMERIC_COLS :: "ustring list" where
  "NUMERIC_COLS = [col_amount, col_profit, col_margin_rate, col_contribution]"

definition marker_subtotal :: ustring where
  "marker_subtotal = [0x6C47, 0x603B]"

definition marker_total :: ustring where
  "marker_total = [0x603B, 0x8BA1]"

text \<open>\<open>str.contains\<close> with a pattern free of regular-expression operators.\<close>

fun str_contains :: "ustring \<Rightarrow> ustring \<Rightarrow> bool" where
  "str_contains pat [] = (pat = [])"
| "str_contains pat (c # cs) = (take (length pat) (c # cs) = pat \<or> str_contains pat cs)"

text \<open>\<open>astype(str)\<close> prints a missing cell as the three letters "nan".\<close>

definition astype_str :: "ustring option \<Rightarrow> ustring" where
  "astype_str c = (case c of None \<Rightarrow> [0x6E, 0x61, 0x6E] | Some s \<Rightarrow> s)"

text \<open>
  A cell of a numeric column as the sheet holds it: empty, a number, or text.
  A row of the sheet as read; the category and the product name are text or empty.
  \<open>columns\<close> is the schema of the sheet; the cells of a column that the schema lacks
  are never read.
\<close>

datatype raw = RNull | RNum real | RText ustring

record raw_row =
  r_category :: "ustring option"
  r_product_name :: "ustring option"
  r_amount :: raw
  r_profit :: raw
  r_margin_rate :: raw
  r_contribution :: raw

record sheet =
  columns :: "ustring list"
  sheet_rows :: "raw_row list"

text \<open>A row of the cleaned table: the numeric columns are float64.\<close>

record row =
  category :: "ustring option"
  product_name :: "ustring option"
  amount :: fl
  profit :: fl
  margin_rate :: fl
  contribution :: fl

text \<open>Looking up a column that the schema lacks raises \<open>KeyError\<close>.\<close>

datatype error = KeyError ustring

text \<open>
  \<open>Series.ffill()\<close>: walking down the column, a missing cell takes the last value seen;
  before the first value there is nothing to take.
\<close>

fun ffill_from :: "'a option \<Rightarrow> 'a option list \<Rightarrow> 'a option list" where
  "ffill_from prev [] = []"
| "ffill_from prev (None # xs) = prev # ffill_from prev xs"
| "ffill_from prev (Some v # xs) = Some v # ffill_from (Some v) xs"

definition ffill :: "'a option list \<Rightarrow> 'a option list" where
  "ffill xs = ffill_from None xs"

definition ffill_category :: "raw_row list \<Rightarrow> raw_row list" where
  "ffill_category rs =
     map (\<lambda>(r, c). r\<lparr>r_category := c\<rparr>) (zip rs (ffill (map r_category rs)))"

text \<open>
  \<open>pd.to_numeric(errors="coerce")\<close> on one cell. How pandas reads a text as a number
  is not part of the repository: \<open>parse\<close> stands for it (\<open>None\<close>: the text is not a
  number).
\<close>

definition to_numeric :: "(ustring \<Rightarrow> fl option) \<Rightarrow> raw \<Rightarrow> fl" where
  "to_numeric parse c =
     (case c of
        RNull \<Rightarrow> NaN
      | RNum x \<Rightarrow> Fin x
      | RText s \<Rightarrow> (case parse s of None \<Rightarrow> NaN | Some v \<Rightarrow> v))"

text \<open>The loop over \<open>NUMERIC_COLS\<close>, on one row: each column is coerced by itself.\<close>

definition coerce_row :: "(ustring \<Rightarrow> fl option) \<Rightarrow> raw_row \<Rightarrow> row" where
  "coerce_row parse r =
     \<lparr>category = r_category r, product_name = r_product_name r,
      amount = to_numeric parse (r_amount r),
      profit = to_numeric parse (r_profit r),
      margin_rate = to_numeric parse (r_margin_rate r),
      contribution = to_numeric parse (r_contribution r)\<rparr>"

text \<open>The first column of a list that the schema lacks.\<close>

fun first_missing :: "ustring list \<Rightarrow> ustring list \<Rightarrow> ustring option" where
  "first_missing [] cols = None"
| "first_missing (c # cs) cols = (if c \<in> set cols then first_missing cs cols else Some c)"

text \<open>
  \<open>load_data\<close>, after \<open>read_excel\<close> has returned the sheet. The columns are looked up in
  the order of the source: the category (fill), the product name (filter), the category
  again (marker filter), then the numeric columns in the order of \<open>NUMERIC_COLS\<close>.
\<close>

definition load_data :: "(ustring \<Rightarrow> fl option) \<Rightarrow> sheet \<Rightarrow> error + row list" where
  "load_data parse sh =
     (if col_category \<notin> set (columns sh) then Inl (KeyError col_category)
      else
        let df1 = ffill_category (sheet_rows sh)
        in if col_product \<notin> set (columns sh) then Inl (KeyError col_product)
           else
             let df2 = filter (\<lambda>r. r_product_name r \<noteq> None) df1;
                 df3 = filter (\<lambda>r. \<not> str_contains marker_subtotal
                                         (astype_str (r_category r))) df2
             in case first_missing NUMERIC_COLS (columns sh) of
                  Some c \<Rightarrow> Inl (KeyError c)
                | None \<Rightarrow> Inr (map (coerce_row parse) df3))"

section \<open>The aggregator of price\_analysis.py\<close>

record cat_summary =
  cs_category :: ustring
  cs_sales_amount :: fl
  cs_gross_profit :: fl
  cs_avg_margin_rate :: fl
  cs_median_margin_rate :: fl
  cs_sku_count :: nat
  cs_realized_margin_rate :: fl

record product_summary =
  ps_category :: ustring
  ps_product_name :: ustring
  ps_sales_amount :: fl
  ps_gross_profit :: fl
  ps_avg_margin_rate :: fl
  ps_realized_margin_rate :: fl

text \<open>
  \<open>groupby\<close> drops the rows whose key is missing and lists the groups by ascending
  key. \<open>nunique\<close> counts the distinct values that are present.
\<close>

definition cat_keys :: "row list \<Rightarrow> ustring list" where
  "cat_keys df = sort (remdups (List.map_filter category df))"

definition cat_group :: "row list \<Rightarrow> ustring \<Rightarrow> row list" where
  "cat_group df k = filter (\<lambda>r. category r = Some k) df"

definition nunique :: "ustring option list \<Rightarrow> nat" where
  "nunique xs = length (remdups (List.map_filter id xs))"

definition product_key :: "row \<Rightarrow> (ustring \<times> ustring) option" where
  "product_key r =
     (case category r of
        None \<Rightarrow> None
      | Some c \<Rightarrow> (case product_name r of None \<Rightarrow> None | Some n \<Rightarrow> Some (c, n)))"

definition product_keys :: "row list \<Rightarrow> (ustring \<times> ustring) list" where
  "product_keys df = sort (remdups (List.map_filter product_key df))"

definition product_group :: "row list \<Rightarrow> ustring \<times> ustring \<Rightarrow> row list" where
  "product_group df k = filter (\<lambda>r. product_key r = Some k) df"

text \<open>
  \<open>replace([pd.NA, pd.NaT, inf, -inf], 0)\<close> on one cell of a float64 column: the two
  infinities of the list match an infinite cell, which becomes 0. The entries \<open>pd.NA\<close>
  and \<open>pd.NaT\<close> match no cell of a float64 column: a missing cell (\<open>NaN\<close>) stays
  missing. The key columns hold no missing cell after \<open>groupby\<close>.
\<close>

definition replace0 :: "fl \<Rightarrow> fl" where
  "replace0 x = (if x = PInf \<or> x = NInf then Fin 0 else x)"

definition summarize_cat :: "row list \<Rightarrow> cat_summary list" where
  "summarize_cat df =
     map (\<lambda>k. let g = cat_group df k;
                  sa = fsum (map amount g);
                  gp = fsum (map profit g)
              in \<lparr>cs_category = k, cs_sales_amount = sa, cs_gross_profit = gp,
                  cs_avg_margin_rate = fmean (map margin_rate g),
                  cs_median_margin_rate = median (map margin_rate g),
                  cs_sku_count = nunique (map product_name g),
                  cs_realized_margin_rate = fdiv gp sa\<rparr>)
         (cat_keys df)"

definition summarize_product :: "row list \<Rightarrow> product_summary list" where
  "summarize_product df =
     map (\<lambda>k. let g = product_group df k;
                  sa = fsum (map amount g);
                  gp = fsum (map profit g)
              in \<lparr>ps_category = fst k, ps_product_name = snd k,
                  ps_sales_amount = replace0 sa, ps_gross_profit = replace0 gp,
                  ps_avg_margin_rate = replace0 (fmean (map margin_rate g)),
                  ps_realized_margin_rate = replace0 (fdiv gp sa)\<rparr>)
         (product_keys df)"

definition summarize :: "row list \<Rightarrow> cat_summary list \<times> product_summary list" where
  "summarize df = (summarize_cat df, summarize_product df)"

section \<open>Export and the main function of price\_analysis.py\<close>

text \<open>
  \<open>sort_values(ascending=False)\<close>: descending by the key, missing keys last. The
  order of rows with equal keys is left to the sorting algorithm of pandas; here a row
  is inserted before the rows of equal key.
\<close>

definition desc_le :: "fl \<Rightarrow> fl \<Rightarrow> bool" where
  "desc_le a b = (b = NaN \<or> fle b a)"

definition sort_values_desc :: "('a \<Rightarrow> fl) \<Rightarrow> 'a list \<Rightarrow> 'a list" where
  "sort_values_desc key xs = sort_by (\<lambda>a b. desc_le (key a) (key b)) xs"

text \<open>The five tables that \<open>export_tables\<close> writes, named after their files.\<close>

record exported =
  category_summary_csv :: "cat_summary list"
  product_summary_csv :: "product_summary list"
  high_margin_products_csv :: "product_summary list"
  low_margin_products_csv :: "product_summary list"
  zero_margin_products_csv :: "product_summary list"

definition export_tables :: "cat_summary list \<Rightarrow> product_summary list \<Rightarrow> exported" where
  "export_tables cat_summary product_summary =
     (let high_margin =
            sort_values_desc ps_realized_margin_rate
              (filter (\<lambda>r. fge (ps_realized_margin_rate r) (Fin (18 / 100))) product_summary);
          low_margin =
            sort_values_desc ps_sales_amount
              (filter (\<lambda>r. fle (ps_realized_margin_rate r) (Fin (5 / 100))) product_summary);
          zero_margin =
            sort_values_desc ps_sales_amount
              (filter (\<lambda>r. fle (ps_realized_margin_rate r) (Fin 0)) product_summary)
      in \<lparr>category_summary_csv = cat_summary, product_summary_csv = product_summary,
          high_margin_products_csv = high_margin, low_margin_products_csv = low_margin,
          zero_margin_products_csv = zero_margin\<rparr>)"

text \<open>
  What a run of \<open>main\<close> leaves behind: the output directory (made before the sheet is
  loaded), the exported tables and the names of the chart files. An exception of
  \<open>load_data\<close> ends the run.
\<close>

record outputs =
  out_dir_created :: bool
  tables :: "exported option"
  charts :: "string list"

definition main :: "(ustring \<Rightarrow> fl option) \<Rightarrow> sheet \<Rightarrow> error option \<times> outputs" where
  "main parse sh =
     (let out0 = \<lparr>out_dir_created = True, tables = None, charts = []\<rparr>
      in case load_data parse sh of
           Inl e \<Rightarrow> (Some e, out0)
         | Inr df \<Rightarrow>
             (let s = summarize df
              in (None,
                  out0\<lparr>tables := Some (export_tables (fst s) (snd s)),
                       charts := [''category_margin.png'', ''price_trend.png'',
                                  ''margin_distribution.png'']\<rparr>)))"

section \<open>The category analysis of analyze\_products.py\<close>

text \<open>
  \<open>analyze_by_category\<close> reads the sheet as \<open>read_excel\<close> returns it, without
  coercion; its numeric columns are taken to be float64 already. The filled category
  is a new column beside the original one: a row is paired with it.
\<close>

definition has_marker :: "ustring option \<Rightarrow> bool" where
  "has_marker c =
     (case c of
        None \<Rightarrow> False
      | Some s \<Rightarrow> str_contains marker_subtotal s \<or> str_contains marker_total s)"

definition category_clean :: "row list \<Rightarrow> (row \<times> ustring option) list" where
  "category_clean df =
     (let filled = zip df (ffill (map category df));
          c1 = filter (\<lambda>p. product_name (fst p) \<noteq> None) filled;
          c2 = filter (\<lambda>p. notna (amount (fst p))) c1
      in filter (\<lambda>p. \<not> has_marker (snd p)) c2)"

definition analyze_by_category :: "row list \<Rightarrow> cat_row list" where
  "analyze_by_category df =
     (let df_clean = category_clean df;
          keys = sort (remdups (List.map_filter snd df_clean));
          grouped =
            map (\<lambda>k. let g = map fst (filter (\<lambda>p. snd p = Some k) df_clean);
                         sa = fsum (map amount g);
                         gp = fsum (map profit g)
                     in \<lparr>cr_category = k, cr_amount = sa, cr_profit = gp,
                         cr_rate = fround2 (fmul (fdiv gp sa) (Fin 100))\<rparr>) keys
      in sort_values_desc cr_amount (filter (\<lambda>r. fgt (cr_amount r) (Fin 0)) grouped))"

section \<open>Auxiliary definitions and example tables\<close>

text \<open>The last value present in a column, and the value that a fill has at row \<open>i\<close>.\<close>

fun last_some :: "'a option list \<Rightarrow> 'a option" where
  "last_some [] = None"
| "last_some (x # xs) = (case last_some xs of None \<Rightarrow> x | Some v \<Rightarrow> Some v)"

definition nearest_preceding :: "'a option list \<Rightarrow> nat \<Rightarrow> 'a option" where
  "nearest_preceding xs i = last_some (take (Suc i) xs)"

text \<open>The two row filters of \<open>load_data\<close> as one predicate.\<close>

definition keep_row :: "raw_row \<Rightarrow> bool" where
  "keep_row r = (r_product_name r \<noteq> None
                 \<and> \<not> str_contains marker_subtotal (astype_str (r_category r)))"

text \<open>
  A reader of texts for the examples: a text of decimal digits is the number it
  writes, any other text is not a number.
\<close>

definition parse_digits :: "ustring \<Rightarrow> fl option" where
  "parse_digits s =
     (if s \<noteq> [] \<and> list_all (\<lambda>c. 48 \<le> c \<and> c \<le> 57) s
      then Some (Fin (real (foldl (\<lambda>a c. 10 * a + (c - 48)) 0 s))) else None)"

definition all_columns :: "ustring list" where
  "all_columns = col_category # col_product # NUMERIC_COLS"

text \<open>A sheet whose first row has a product but no category above it.\<close>

definition headless_sheet :: sheet where
  "headless_sheet =
     \<lparr>columns = all_columns,
      sheet_rows = [\<lparr>r_category = None, r_product_name = Some [112, 49],
                     r_amount = RNum 100, r_profit = RNum 5, r_margin_rate = RNum (5 / 100),
                     r_contribution = RNull\<rparr>]\<rparr>"

definition headless_cleaned :: row where
  "headless_cleaned =
     \<lparr>category = None, product_name = Some [112, 49], amount = Fin 100, profit = Fin 5,
      margin_rate = Fin (5 / 100), contribution = NaN\<rparr>"

text \<open>
  A sheet in the layout of the spreadsheet: the category "A" on a title row, two
  products below it; the second product has a text in its amount cell.
\<close>

definition filled_sheet :: sheet where
  "filled_sheet =
     \<lparr>columns = all_columns,
      sheet_rows =
        [\<lparr>r_category = Some [65], r_product_name = None, r_amount = RNull, r_profit = RNull,
          r_margin_rate = RNull, r_contribution = RNull\<rparr>,
         \<lparr>r_category = None, r_product_name = Some [112, 49], r_amount = RNum 1000,
          r_profit = RNum 50, r_margin_rate = RNum (5 / 100), r_contribution = RNull\<rparr>,
         \<lparr>r_category = None, r_product_name = Some [112, 50], r_amount = RText [110, 47, 97],
          r_profit = RNum 7, r_margin_rate = RText [49, 50], r_contribution = RNull\<rparr>]\<rparr>"

definition filled_cleaned :: "row list" where
  "filled_cleaned =
     [\<lparr>category = Some [65], product_name = Some [112, 49], amount = Fin 1000, profit = Fin 50,
       margin_rate = Fin (5 / 100), contribution = NaN\<rparr>,
      \<lparr>category = Some [65], product_name = Some [112, 50], amount = NaN, profit = Fin 7,
       margin_rate = Fin 12, contribution = NaN\<rparr>]"

text \<open>A sheet without the gross-profit, margin-rate and contribution columns.\<close>

definition short_sheet :: sheet where
  "short_sheet = \<lparr>columns = [col_category, col_product, col_amount], sheet_rows = []\<rparr>"

text \<open>Rows of summary tables: a category of amount \<open>a\<close> and rate \<open>p\<close> percent; two products.\<close>

definition ex_cat :: "real \<Rightarrow> real \<Rightarrow> cat_row" where
  "ex_cat a p =
     \<lparr>cr_category = [65], cr_amount = Fin a, cr_profit = Fin (a * p / 100), cr_rate = Fin p\<rparr>"

definition ex_rate1 :: product_summary where
  "ex_rate1 =
     \<lparr>ps_category = [65], ps_product_name = [112, 49], ps_sales_amount = Fin 1000,
      ps_gross_profit = Fin 10, ps_avg_margin_rate = Fin (1 / 100),
      ps_realized_margin_rate = Fin (1 / 100)\<rparr>"

definition ex_rate18 :: product_summary where
  "ex_rate18 =
     \<lparr>ps_category = [65], ps_product_name = [112, 50], ps_sales_amount = Fin 100,
      ps_gross_profit = Fin 18, ps_avg_margin_rate = Fin (18 / 100),
      ps_realized_margin_rate = Fin (18 / 100)\<rparr>"

text \<open>
  A sheet with one product row whose category is the grand-total marker, and the row
  that the loader makes of it.
\<close>

definition total_sheet :: sheet where
  "total_sheet =
     \<lparr>columns = all_columns,
      sheet_rows = [\<lparr>r_category = Some marker_total, r_product_name = Some [112, 49],
                     r_amount = RNum 100, r_profit = RNum 5, r_margin_rate = RNum (5 / 100),
                     r_contribution = RNull\<rparr>]\<rparr>"

definition total_row :: row where
  "total_row =
     \<lparr>category = Some marker_total, product_name = Some [112, 49], amount = Fin 100,
      profit = Fin 5, margin_rate = Fin (5 / 100), contribution = NaN\<rparr>"

text \<open>
  A cleaned table: category "A" with amount 0 and profit 5 beside category "B" with a
  negative amount and profit (returns).
\<close>

definition signed_df :: "row list" where
  "signed_df =
     [\<lparr>category = Some [65], product_name = Some [112, 49], amount = Fin 0, profit = Fin 5,
       margin_rate = Fin (1 / 10), contribution = NaN\<rparr>,
      \<lparr>category = Some [66], product_name = Some [112, 50], amount = Fin (- 100),
       profit = Fin (- 10), margin_rate = Fin (1 / 10), contribution = NaN\<rparr>]"

text \<open>
  A sheet with one product whose margin-rate cell holds a text that is not a number,
  and the row that the loader makes of it.
\<close>

definition unparsed_rate_sheet :: sheet where
  "unparsed_rate_sheet =
     \<lparr>columns = all_columns,
      sheet_rows = [\<lparr>r_category = Some [65], r_product_name = Some [112, 49],
                     r_amount = RNum 100, r_profit = RNum 5,
                     r_margin_rate = RText [110, 47, 97], r_contribution = RNull\<rparr>]\<rparr>"

definition unparsed_rate_row :: row where
  "unparsed_rate_row =
     \<lparr>category = Some [65], product_name = Some [112, 49], amount = Fin 100, profit = Fin 5,
      margin_rate = NaN, contribution = NaN\<rparr>"

text \<open>
  The rate as the specification words it: the quotient of the two sums when the sales
  sum is positive and the quotient is finite, and 0 otherwise.
\<close>

definition claimed_rate :: "fl \<Rightarrow> fl \<Rightarrow> fl" where
  "claimed_rate gp sa =
     (if fgt sa (Fin 0) \<and> isfinite (fdiv gp sa) then fdiv gp sa else Fin 0)"

section \<open>Sorting and comparisons\<close>

lemma set_insort_by: "set (insort_by le x xs) = insert x (set xs)"
  by (induction xs) auto

lemma set_sort_by: "set (sort_by le xs) = set xs"
  by (induction xs) (auto simp: set_insort_by)

lemma set_sort_values_desc: "set (sort_values_desc key xs) = set xs"
  by (simp add: sort_values_desc_def set_sort_by)

text \<open>The sort of the median puts the present cells in ascending order.\<close>

lemma fle_total: "a \<noteq> NaN \<Longrightarrow> b \<noteq> NaN \<Longrightarrow> fle a b \<or> fle b a"
  by (cases a; cases b) auto

lemma fle_trans: "fle a b \<Longrightarrow> fle b c \<Longrightarrow> fle a c"
  by (cases a; cases b; cases c) auto

lemma sorted_insort_by_fle:
  "NaN \<notin> set xs \<Longrightarrow> x \<noteq> NaN \<Longrightarrow> sorted_wrt fle xs \<Longrightarrow> sorted_wrt fle (insort_by fle x xs)"
proof (induction xs)
  case Nil
  then show ?case by simp
next
  case (Cons y ys)
  show ?case
  proof (cases "fle x y")
    case True
    then show ?thesis using Cons.prems by (auto intro: fle_trans)
  next
    case False
    then have "fle y x" using fle_total[of x y] Cons.prems by auto
    then show ?thesis using False Cons by (auto simp: set_insort_by)
  qed
qed

lemma sorted_sort_by_fle: "NaN \<notin> set xs \<Longrightarrow> sorted_wrt fle (sort_by fle xs)"
  by (induction xs) (auto simp: sorted_insort_by_fle set_sort_by)

lemma length_insort_by [simp]: "length (insort_by le x xs) = Suc (length xs)"
  by (induction xs) auto

lemma length_sort_by [simp]: "length (sort_by le xs) = length xs"
  by (induction xs) auto

lemma fge_Fin: "fge a (Fin c) \<longleftrightarrow> (\<exists>x. a = Fin x \<and> c \<le> x) \<or> a = PInf"
  by (cases a) (auto simp: fge_def)

lemma fle_Fin: "fle a (Fin c) \<longleftrightarrow> (\<exists>x. a = Fin x \<and> x \<le> c) \<or> a = NInf"
  by (cases a) auto

lemma flt_Fin: "flt a (Fin c) \<longleftrightarrow> (\<exists>x. a = Fin x \<and> x < c) \<or> a = NInf"
  by (cases a) (auto simp: flt_def)

section \<open>The tiers\<close>

lemma high_margin_issues_iff:
  "r \<in> set (high_margin_issues (identify_issues (Some t)))
     \<longleftrightarrow> r \<in> set t \<and> fge (cr_rate r) (Fin 18)"
  by (simp add: identify_issues_def Let_def)

lemma high_margin_products_iff:
  "p \<in> set (high_margin_products_csv (export_tables cs ps))
     \<longleftrightarrow> p \<in> set ps \<and> fge (ps_realized_margin_rate p) (Fin (18 / 100))"
  by (simp add: export_tables_def Let_def set_sort_values_desc)

text \<open>
  Claim C8. The high-margin tier is inclusive at its boundary. A category of the table
  given to \<open>identify_issues\<close> is in the tier exactly when its rate, in percent, is at
  least 18; a product of the table given to \<open>export_tables\<close> is in the high-margin view
  exactly when its realized margin rate, a fraction, is at least 18/100. A rate of
  exactly 18 percent is in the tier in both. (A missing rate is in no tier; an infinite
  positive rate is above every threshold.)
\<close>

theorem high_margin_boundary_inclusive:
  "(r \<in> set (high_margin_issues (identify_issues (Some t)))
      \<longleftrightarrow> r \<in> set t \<and> ((\<exists>x. cr_rate r = Fin x \<and> 18 \<le> x) \<or> cr_rate r = PInf))
   \<and> (p \<in> set (high_margin_products_csv (export_tables cs ps))
      \<longleftrightarrow> p \<in> set ps \<and> ((\<exists>x. ps_realized_margin_rate p = Fin x \<and> 18 / 100 \<le> x)
                          \<or> ps_realized_margin_rate p = PInf))
   \<and> (r \<in> set t \<and> cr_rate r = Fin 18
        \<longrightarrow> r \<in> set (high_margin_issues (identify_issues (Some t))))
   \<and> (p \<in> set ps \<and> ps_realized_margin_rate p = Fin (18 / 100)
        \<longrightarrow> p \<in> set (high_margin_products_csv (export_tables cs ps)))"
proof (intro conjI impI)
  show "r \<in> set (high_margin_issues (identify_issues (Some t)))
      \<longleftrightarrow> r \<in> set t \<and> ((\<exists>x. cr_rate r = Fin x \<and> 18 \<le> x) \<or> cr_rate r = PInf)"
    unfolding high_margin_issues_iff fge_Fin ..
  show "p \<in> set (high_margin_products_csv (export_tables cs ps))
      \<longleftrightarrow> p \<in> set ps \<and> ((\<exists>x. ps_realized_margin_rate p = Fin x \<and> 18 / 100 \<le> x)
                          \<or> ps_realized_margin_rate p = PInf)"
    unfolding high_margin_products_iff fge_Fin ..
  assume "r \<in> set t \<and> cr_rate r = Fin 18"
  then show "r \<in> set (high_margin_issues (identify_issues (Some t)))"
    unfolding high_margin_issues_iff by (simp add: fge_def)
next
  assume "p \<in> set ps \<and> ps_realized_margin_rate p = Fin (18 / 100)"
  then show "p \<in> set (high_margin_products_csv (export_tables cs ps))"
    unfolding high_margin_products_iff by (simp add: fge_def)
qed

theorem high_margin_boundary_inclusive_witness:
  "ex_cat 1000 18 \<in> set [ex_cat 1000 18, ex_cat 500 17] \<and> cr_rate (ex_cat 1000 18) = Fin 18
   \<and> ex_cat 1000 18
       \<in> set (high_margin_issues (identify_issues (Some [ex_cat 1000 18, ex_cat 500 17])))
   \<and> ex_rate18 \<in> set [ex_rate1, ex_rate18]
   \<and> ps_realized_margin_rate ex_rate18 = Fin (18 / 100)
   \<and> ex_rate18 \<in> set (high_margin_products_csv (export_tables [] [ex_rate1, ex_rate18]))"
proof -
  have 1: "ex_cat 1000 18 \<in> set [ex_cat 1000 18, ex_cat 500 17]
           \<and> cr_rate (ex_cat 1000 18) = Fin 18"
    by (simp add: ex_cat_def)
  have 2: "ex_rate18 \<in> set [ex_rate1, ex_rate18]
           \<and> ps_realized_margin_rate ex_rate18 = Fin (18 / 100)"
    by (simp add: ex_rate18_def)
  show ?thesis
    using high_margin_boundary_inclusive [of "ex_cat 1000 18" "[ex_cat 1000 18, ex_cat 500 17]"
        ex_rate18 "[]" "[ex_rate1, ex_rate18]"] 1 2
    by blast
qed

text \<open>
  Claim C7, as stated, fails on the exported view: a product whose realized margin rate
  is 1 percent, below 2 percent, is not in the zero-margin view of \<open>export_tables\<close>.
\<close>

theorem zero_margin_view_counterexample:
  "fle (fmul (ps_realized_margin_rate ex_rate1) (Fin 100)) (Fin 2)
   \<and> ex_rate1 \<notin> set (zero_margin_products_csv (export_tables [] [ex_rate1]))"
  by (simp add: ex_rate1_def export_tables_def sort_values_desc_def)

text \<open>
  Claim C7, amended. The two classifiers use different thresholds. A category of the
  table given to \<open>identify_issues\<close> is in the zero/negative-margin tier exactly when its
  rate, in percent, is at most 2. A product is in the zero-margin view of
  \<open>export_tables\<close> exactly when its realized margin rate is at most 0.
\<close>

theorem zero_margin_thresholds:
  "(r \<in> set (zero_margin_issues (identify_issues (Some t)))
      \<longleftrightarrow> r \<in> set t \<and> ((\<exists>x. cr_rate r = Fin x \<and> x \<le> 2) \<or> cr_rate r = NInf))
   \<and> (p \<in> set (zero_margin_products_csv (export_tables cs ps))
      \<longleftrightarrow> p \<in> set ps \<and> ((\<exists>x. ps_realized_margin_rate p = Fin x \<and> x \<le> 0)
                          \<or> ps_realized_margin_rate p = NInf))"
  by (auto simp: identify_issues_def export_tables_def Let_def set_sort_values_desc fle_Fin)

theorem zero_margin_thresholds_witness:
  "ex_cat 1000 2
     \<in> set (zero_margin_issues (identify_issues (Some [ex_cat 1000 2, ex_cat 500 17])))
   \<and> ex_rate1 \<notin> set (zero_margin_products_csv (export_tables [] [ex_rate1, ex_rate18]))"
  using zero_margin_thresholds [of "ex_cat 1000 2" "[ex_cat 1000 2, ex_cat 500 17]"
      ex_rate1 "[]" "[ex_rate1, ex_rate18]"]
  by (simp add: ex_cat_def ex_rate1_def)

lemma big_low_iff:
  "r \<in> set (big_low_issues (identify_issues (Some t)))
      \<longleftrightarrow> r \<in> set t \<and> ((\<exists>x. cr_rate r = Fin x \<and> x < 10) \<or> cr_rate r = NInf)
          \<and> fge (cr_amount r) (median (map cr_amount t))"
  by (auto simp: identify_issues_def Let_def flt_Fin)

lemma median_one: "median (map cr_amount [ex_cat 1 5]) = Fin 1"
  by (simp add: median_def ex_cat_def notna_def)

lemma median_three: "median (map cr_amount [ex_cat 1 5, ex_cat 3 5, ex_cat 5 5]) = Fin 3"
  by (simp add: median_def ex_cat_def notna_def)

text \<open>
  Claim C9. A category is in the large-but-unprofitable tier exactly when its rate is
  below 10 percent and its amount is at least the median of the amounts of the table
  given to this call of \<open>identify_issues\<close>. No fixed number can stand for that median:
  the same row is in the tier of one table and not of another.
\<close>

theorem big_low_uses_table_median:
  "(r \<in> set (big_low_issues (identify_issues (Some t)))
      \<longleftrightarrow> r \<in> set t \<and> ((\<exists>x. cr_rate r = Fin x \<and> x < 10) \<or> cr_rate r = NInf)
          \<and> fge (cr_amount r) (median (map cr_amount t)))
   \<and> \<not> (\<exists>c. \<forall>t' r'. r' \<in> set (big_low_issues (identify_issues (Some t')))
              \<longleftrightarrow> r' \<in> set t'
                  \<and> ((\<exists>x. cr_rate r' = Fin x \<and> x < 10) \<or> cr_rate r' = NInf)
                  \<and> fge (cr_amount r') c)"
proof (intro conjI notI)
  show "r \<in> set (big_low_issues (identify_issues (Some t)))
      \<longleftrightarrow> r \<in> set t \<and> ((\<exists>x. cr_rate r = Fin x \<and> x < 10) \<or> cr_rate r = NInf)
          \<and> fge (cr_amount r) (median (map cr_amount t))"
    by (rule big_low_iff)
next
  assume "\<exists>c. \<forall>t' r'. r' \<in> set (big_low_issues (identify_issues (Some t')))
              \<longleftrightarrow> r' \<in> set t'
                  \<and> ((\<exists>x. cr_rate r' = Fin x \<and> x < 10) \<or> cr_rate r' = NInf)
                  \<and> fge (cr_amount r') c"
  then obtain c where c: "\<And>t' r'. r' \<in> set (big_low_issues (identify_issues (Some t')))
              \<longleftrightarrow> r' \<in> set t'
                  \<and> ((\<exists>x. cr_rate r' = Fin x \<and> x < 10) \<or> cr_rate r' = NInf)
                  \<and> fge (cr_amount r') c"
    by blast
  have "ex_cat 1 5 \<in> set (big_low_issues (identify_issues (Some [ex_cat 1 5])))"
    unfolding big_low_iff median_one by (simp add: ex_cat_def fge_def)
  then have above: "fge (cr_amount (ex_cat 1 5)) c"
    using c by blast
  have "ex_cat 1 5
          \<notin> set (big_low_issues (identify_issues (Some [ex_cat 1 5, ex_cat 3 5, ex_cat 5 5])))"
    unfolding big_low_iff median_three by (simp add: ex_cat_def fge_def)
  moreover have "ex_cat 1 5
          \<in> set (big_low_issues (identify_issues (Some [ex_cat 1 5, ex_cat 3 5, ex_cat 5 5])))"
    unfolding c using above by (simp add: ex_cat_def)
  ultimately show False by blast
qed

theorem big_low_uses_table_median_witness:
  "ex_cat 5 5
     \<in> set (big_low_issues (identify_issues (Some [ex_cat 1 5, ex_cat 3 5, ex_cat 5 5])))
   \<and> ex_cat 1 5
     \<notin> set (big_low_issues (identify_issues (Some [ex_cat 1 5, ex_cat 3 5, ex_cat 5 5])))"
  using big_low_uses_table_median [of "ex_cat 5 5" "[ex_cat 1 5, ex_cat 3 5, ex_cat 5 5]"]
    big_low_uses_table_median [of "ex_cat 1 5" "[ex_cat 1 5, ex_cat 3 5, ex_cat 5 5]"]
    median_three
  by (simp add: ex_cat_def fge_def)

section \<open>The loader\<close>

text \<open>\<open>str_contains\<close> is the substring test.\<close>

lemma str_contains_iff: "str_contains pat s \<longleftrightarrow> (\<exists>pre suf. s = pre @ pat @ suf)"
proof (induction s)
  case Nil
  then show ?case by auto
next
  case (Cons c cs)
  have "take (length pat) (c # cs) = pat \<longleftrightarrow> (\<exists>suf. c # cs = pat @ suf)"
    by (metis append_eq_conv_conj append_take_drop_id)
  moreover have "(\<exists>pre suf. c # cs = pre @ pat @ suf)
      \<longleftrightarrow> (\<exists>suf. c # cs = pat @ suf) \<or> (\<exists>pre suf. cs = pre @ pat @ suf)"
  proof
    assume "\<exists>pre suf. c # cs = pre @ pat @ suf"
    then obtain pre suf where e: "c # cs = pre @ pat @ suf" by blast
    show "(\<exists>suf. c # cs = pat @ suf) \<or> (\<exists>pre suf. cs = pre @ pat @ suf)"
    proof (cases pre)
      case Nil
      then show ?thesis using e by auto
    next
      case (Cons a pre')
      then have "cs = pre' @ pat @ suf" using e by simp
      then show ?thesis by blast
    qed
  next
    assume "(\<exists>suf. c # cs = pat @ suf) \<or> (\<exists>pre suf. cs = pre @ pat @ suf)"
    then show "\<exists>pre suf. c # cs = pre @ pat @ suf"
    proof
      assume "\<exists>suf. c # cs = pat @ suf"
      then show ?thesis by (metis append_Nil)
    next
      assume "\<exists>pre suf. cs = pre @ pat @ suf"
      then obtain pre suf where "cs = pre @ pat @ suf" by blast
      then have "c # cs = (c # pre) @ pat @ suf" by simp
      then show ?thesis by blast
    qed
  qed
  ultimately show ?case using Cons by simp
qed

lemma ffill_from_length [simp]: "length (ffill_from prev xs) = length xs"
  by (induction prev xs rule: ffill_from.induct) auto

lemma ffill_from_nth:
  "i < length xs \<Longrightarrow>
   ffill_from prev xs ! i = (case nearest_preceding xs i of None \<Rightarrow> prev | Some v \<Rightarrow> Some v)"
proof (induction prev xs arbitrary: i rule: ffill_from.induct)
  case (1 prev)
  then show ?case by simp
next
  case (2 prev xs)
  then show ?case
    by (cases i) (auto simp: nearest_preceding_def split: option.splits)
next
  case (3 prev v xs)
  then show ?case
    by (cases i) (auto simp: nearest_preceding_def split: option.splits)
qed

lemma ffill_nth: "i < length xs \<Longrightarrow> ffill xs ! i = nearest_preceding xs i"
  by (simp add: ffill_def ffill_from_nth split: option.splits)

lemma last_some_snoc:
  "last_some (ys @ [x]) = (case x of None \<Rightarrow> last_some ys | Some v \<Rightarrow> Some v)"
  by (induction ys) (auto split: option.splits)

lemma last_some_iff:
  "last_some ys = Some v \<longleftrightarrow>
   (\<exists>j<length ys. ys ! j = Some v \<and> (\<forall>k. j < k \<and> k < length ys \<longrightarrow> ys ! k = None))"
proof (induction ys rule: rev_induct)
  case Nil
  then show ?case by simp
next
  case (snoc x ys)
  show ?case
  proof (cases x)
    case None
    have "(\<exists>j<length (ys @ [x]). (ys @ [x]) ! j = Some v \<and> (\<forall>k. j < k \<and> k < length (ys @ [x]) \<longrightarrow> (ys @ [x]) ! k = None))
      \<longleftrightarrow> (\<exists>j<length ys. ys ! j = Some v \<and> (\<forall>k. j < k \<and> k < length ys \<longrightarrow> ys ! k = None))"
      (is "?L \<longleftrightarrow> ?R")
    proof
      assume ?L
      then obtain j where j: "j < length (ys @ [x])" "(ys @ [x]) ! j = Some v"
        "\<forall>k. j < k \<and> k < length (ys @ [x]) \<longrightarrow> (ys @ [x]) ! k = None" by blast
      have "j \<noteq> length ys" using j(2) None by auto
      with j(1) have jl: "j < length ys" by simp
      have "\<forall>k. j < k \<and> k < length ys \<longrightarrow> ys ! k = None"
      proof (intro allI impI)
        fix k assume k: "j < k \<and> k < length ys"
        then have "(ys @ [x]) ! k = None" using j(3) by simp
        then show "ys ! k = None" using k by (simp add: nth_append)
      qed
      then show ?R using jl j(2) by (auto simp: nth_append)
    next
      assume ?R
      then obtain j where j: "j < length ys" "ys ! j = Some v"
        "\<forall>k. j < k \<and> k < length ys \<longrightarrow> ys ! k = None" by blast
      have "\<forall>k. j < k \<and> k < length (ys @ [x]) \<longrightarrow> (ys @ [x]) ! k = None"
        using j(3) None by (auto simp: nth_append less_Suc_eq)
      then show ?L using j(1,2) by (intro exI[of _ j]) (auto simp: nth_append)
    qed
    then show ?thesis using snoc None by (simp add: last_some_snoc)
  next
    case (Some w)
    have "(\<exists>j<length (ys @ [x]). (ys @ [x]) ! j = Some v \<and> (\<forall>k. j < k \<and> k < length (ys @ [x]) \<longrightarrow> (ys @ [x]) ! k = None))
      \<longleftrightarrow> w = v" (is "?L \<longleftrightarrow> _")
    proof
      assume ?L
      then obtain j where j: "j < length (ys @ [x])" "(ys @ [x]) ! j = Some v"
        "\<forall>k. j < k \<and> k < length (ys @ [x]) \<longrightarrow> (ys @ [x]) ! k = None" by blast
      have "j = length ys"
      proof (rule ccontr)
        assume "j \<noteq> length ys"
        with j(1) have "j < length ys" by simp
        then have "(ys @ [x]) ! (length ys) = None"
          using j(3)[rule_format, of "length ys"] by simp
        then show False using Some by simp
      qed
      then show "w = v" using j(2) Some by simp
    next
      assume "w = v"
      then show ?L using Some by (intro exI[of _ "length ys"]) auto
    qed
    then show ?thesis using Some by (simp add: last_some_snoc)
  qed
qed

lemma ffill_nth_iff:
  assumes "i < length xs"
  shows "ffill xs ! i = Some v \<longleftrightarrow>
     (\<exists>j\<le>i. xs ! j = Some v \<and> (\<forall>k. j < k \<and> k \<le> i \<longrightarrow> xs ! k = None))"
proof -
  have len: "length (take (Suc i) xs) = Suc i" using assms by simp
  have nth: "\<And>j. j \<le> i \<Longrightarrow> take (Suc i) xs ! j = xs ! j" by simp
  show ?thesis
    unfolding ffill_nth[OF assms] nearest_preceding_def last_some_iff len
    by (auto simp: less_Suc_eq_le nth)
qed


lemma ffill_length [simp]: "length (ffill xs) = length xs"
  by (simp add: ffill_def)

lemma map_category_ffill_category:
  "map r_category (ffill_category rs) = ffill (map r_category rs)"
  by (rule nth_equalityI) (simp_all add: ffill_category_def)

lemma length_ffill_category [simp]: "length (ffill_category rs) = length rs"
  by (simp add: ffill_category_def)

lemma nth_ffill_category:
  "i < length rs \<Longrightarrow> ffill_category rs ! i = (rs ! i)\<lparr>r_category := ffill (map r_category rs) ! i\<rparr>"
  by (simp add: ffill_category_def)

lemma map_product_ffill_category:
  "map r_product_name (ffill_category rs) = map r_product_name rs"
  by (rule nth_equalityI) (simp_all add: nth_ffill_category)

lemma first_missing_None: "first_missing cs cols = None \<longleftrightarrow> set cs \<subseteq> set cols"
  by (induction cs) auto

lemma first_missing_Some:
  "first_missing cs cols = Some c \<Longrightarrow> c \<in> set cs \<and> c \<notin> set cols"
  by (induction cs) (auto split: if_splits)

lemma load_data_Inr:
  "load_data parse sh = Inr df \<Longrightarrow>
   df = map (coerce_row parse) (filter keep_row (ffill_category (sheet_rows sh)))"
  by (simp add: load_data_def Let_def keep_row_def[abs_def] split: if_splits option.splits)

lemma load_data_Inr_iff:
  "(\<exists>df. load_data parse sh = Inr df) \<longleftrightarrow> set (col_category # col_product # NUMERIC_COLS) \<subseteq> set (columns sh)"
  by (auto simp: load_data_def Let_def first_missing_None split: option.splits dest: first_missing_Some)

lemma ffill_from_Some_no_None: "None \<notin> set (ffill_from (Some v) xs)"
proof (induction xs arbitrary: v)
  case Nil
  then show ?case by simp
next
  case (Cons x xs)
  then show ?case by (cases x) auto
qed

lemma ffill_headed_no_None: "xs \<noteq> [] \<Longrightarrow> hd xs \<noteq> None \<Longrightarrow> None \<notin> set (ffill xs)"
  by (cases xs) (auto simp: ffill_def ffill_from_Some_no_None)

lemma category_coerce_row [simp]: "category (coerce_row parse r) = r_category r"
  by (simp add: coerce_row_def)

lemma product_name_coerce_row [simp]: "product_name (coerce_row parse r) = r_product_name r"
  by (simp add: coerce_row_def)

text \<open>
  Claim C3, as stated, fails when the sheet starts with rows that have a product but
  no category above them: nothing precedes them to fill from, the product filter keeps
  them, and the cleaned table has a row without category.
\<close>

theorem headless_counterexample:
  "load_data parse_digits headless_sheet = Inr [headless_cleaned]
   \<and> category headless_cleaned = None"
  by (simp add: load_data_def headless_sheet_def headless_cleaned_def ffill_category_def
      ffill_def astype_str_def marker_subtotal_def coerce_row_def to_numeric_def
      all_columns_def NUMERIC_COLS_def)

text \<open>
  Claim C3, amended. The category column is filled before the rows without product
  name are dropped: the cleaned table is the filter of the filled sheet. After the
  fill, row \<open>i\<close> has category \<open>v\<close> exactly when \<open>v\<close> is the category of the nearest
  row at or above \<open>i\<close> that has one; a row with no such row above it stays without
  category. Hence every row of the cleaned table has a category whenever the first row
  of the sheet has one.
\<close>

theorem fill_runs_before_filter:
  "(load_data parse sh = Inr df \<longrightarrow>
      df = map (coerce_row parse)
             (filter (\<lambda>r. r_product_name r \<noteq> None
                          \<and> \<not> str_contains marker_subtotal (astype_str (r_category r)))
                (ffill_category (sheet_rows sh))))
   \<and> (i < length rs \<longrightarrow>
        (r_category (ffill_category rs ! i) = Some v \<longleftrightarrow>
           (\<exists>j\<le>i. r_category (rs ! j) = Some v
                  \<and> (\<forall>k. j < k \<and> k \<le> i \<longrightarrow> r_category (rs ! k) = None))))
   \<and> (load_data parse sh = Inr df \<and> sheet_rows sh \<noteq> []
        \<and> r_category (hd (sheet_rows sh)) \<noteq> None
      \<longrightarrow> (\<forall>r\<in>set df. category r \<noteq> None))"
proof (intro conjI impI)
  assume "load_data parse sh = Inr df"
  then show "df = map (coerce_row parse)
             (filter (\<lambda>r. r_product_name r \<noteq> None
                          \<and> \<not> str_contains marker_subtotal (astype_str (r_category r)))
                (ffill_category (sheet_rows sh)))"
    using load_data_Inr[of parse sh df] by (simp add: keep_row_def[abs_def])
next
  assume i: "i < length rs"
  have "\<And>j. j \<le> i \<Longrightarrow> map r_category rs ! j = r_category (rs ! j)"
    using i by simp
  then show "r_category (ffill_category rs ! i) = Some v \<longleftrightarrow>
           (\<exists>j\<le>i. r_category (rs ! j) = Some v
                  \<and> (\<forall>k. j < k \<and> k \<le> i \<longrightarrow> r_category (rs ! k) = None))"
    using i ffill_nth_iff[of i "map r_category rs" v]
    by (auto simp: nth_ffill_category)
next
  assume a: "load_data parse sh = Inr df \<and> sheet_rows sh \<noteq> []
        \<and> r_category (hd (sheet_rows sh)) \<noteq> None"
  then have df: "df = map (coerce_row parse) (filter keep_row (ffill_category (sheet_rows sh)))"
    using load_data_Inr by blast
  have "None \<notin> set (ffill (map r_category (sheet_rows sh)))"
    using a by (intro ffill_headed_no_None) (auto simp: hd_map)
  then have "None \<notin> set (map r_category (ffill_category (sheet_rows sh)))"
    by (simp add: map_category_ffill_category)
  then have "\<And>r. r \<in> set (ffill_category (sheet_rows sh)) \<Longrightarrow> r_category r \<noteq> None"
    by (metis image_eqI set_map)
  then show "\<forall>r\<in>set df. category r \<noteq> None"
    unfolding df by simp
qed

lemma load_filled: "load_data parse_digits filled_sheet = Inr filled_cleaned"
  by (simp add: load_data_def filled_sheet_def filled_cleaned_def ffill_category_def ffill_def
      astype_str_def marker_subtotal_def coerce_row_def to_numeric_def all_columns_def NUMERIC_COLS_def
      parse_digits_def)

theorem fill_runs_before_filter_witness:
  "load_data parse_digits filled_sheet = Inr filled_cleaned
   \<and> 2 < length (sheet_rows filled_sheet)
   \<and> sheet_rows filled_sheet \<noteq> [] \<and> r_category (hd (sheet_rows filled_sheet)) \<noteq> None
   \<and> (r_category (ffill_category (sheet_rows filled_sheet) ! 2) = Some [65] \<longleftrightarrow>
        (\<exists>j\<le>2. r_category (sheet_rows filled_sheet ! j) = Some [65]
           \<and> (\<forall>k. j < k \<and> k \<le> 2 \<longrightarrow> r_category (sheet_rows filled_sheet ! k) = None)))
   \<and> None \<notin> set (map category filled_cleaned)"
proof -
  have h: "load_data parse_digits filled_sheet = Inr filled_cleaned"
    by (rule load_filled)
  have n: "2 < length (sheet_rows filled_sheet) \<and> sheet_rows filled_sheet \<noteq> []
           \<and> r_category (hd (sheet_rows filled_sheet)) \<noteq> None"
    by (simp add: filled_sheet_def)
  note inst = fill_runs_before_filter [of parse_digits filled_sheet filled_cleaned 2
        "sheet_rows filled_sheet" "[65]"]
  have a: "\<forall>r\<in>set filled_cleaned. category r \<noteq> None"
    using inst h n by blast
  have b: "None \<notin> set (map category filled_cleaned)"
  proof
    assume "None \<in> set (map category filled_cleaned)"
    then obtain r where "r \<in> set filled_cleaned" "category r = None"
      by (auto simp: image_iff)
    then show False using a by blast
  qed
  show ?thesis
    using inst h n b by blast
qed


lemma col_distinct: "distinct (col_category # col_product # NUMERIC_COLS)"
  by (simp add: col_category_def col_product_def NUMERIC_COLS_def col_amount_def col_profit_def
      col_margin_rate_def col_contribution_def col_prefix_def)

text \<open>
  Claim C5. When the schema of the sheet lacks the category column, the product-name
  column or one of the numeric columns (so also when it lacks all the amount columns),
  \<open>load_data\<close> fails: the lookup of the first such column, in the order of the source,
  raises \<open>KeyError\<close>, which is the input error of this program. \<open>main\<close> ends with that
  error before any table or chart is written; the output directory, made before the
  sheet is loaded, is empty.
\<close>

theorem missing_column_fails:
  assumes "c \<in> set (col_category # col_product # NUMERIC_COLS)"
    and "c \<notin> set (columns sh)"
  shows "\<exists>c'. c' \<in> set (col_category # col_product # NUMERIC_COLS) \<and> c' \<notin> set (columns sh)
            \<and> load_data parse sh = Inl (KeyError c')
            \<and> main parse sh
                = (Some (KeyError c'), \<lparr>out_dir_created = True, tables = None, charts = []\<rparr>)"
proof (cases "col_category \<in> set (columns sh)")
  case False
  then show ?thesis
    by (intro exI[of _ col_category]) (simp add: load_data_def main_def)
next
  case cat: True
  show ?thesis
  proof (cases "col_product \<in> set (columns sh)")
    case False
    then show ?thesis
      using cat by (intro exI[of _ col_product]) (simp add: load_data_def main_def)
  next
    case prod: True
    have "\<not> set NUMERIC_COLS \<subseteq> set (columns sh)"
      using assms cat prod by auto
    then obtain c' where c': "first_missing NUMERIC_COLS (columns sh) = Some c'"
      using first_missing_None[of NUMERIC_COLS "columns sh"] by (cases "first_missing NUMERIC_COLS (columns sh)") auto
    then have "c' \<in> set NUMERIC_COLS \<and> c' \<notin> set (columns sh)"
      by (rule first_missing_Some)
    then show ?thesis
      using cat prod c' by (intro exI[of _ c']) (simp add: load_data_def main_def)
  qed
qed

theorem missing_column_fails_witness:
  "col_profit \<in> set (col_category # col_product # NUMERIC_COLS)
   \<and> col_profit \<notin> set (columns short_sheet)
   \<and> (\<exists>c'. load_data parse_digits short_sheet = Inl (KeyError c')
          \<and> main parse_digits short_sheet
              = (Some (KeyError c'), \<lparr>out_dir_created = True, tables = None, charts = []\<rparr>))"
proof -
  have 1: "col_profit \<in> set (col_category # col_product # NUMERIC_COLS)"
    by (simp add: NUMERIC_COLS_def)
  have 2: "col_profit \<notin> set (columns short_sheet)"
    using col_distinct by (auto simp: short_sheet_def NUMERIC_COLS_def)
  show ?thesis
    using missing_column_fails [OF 1 2, of parse_digits] 1 2 by blast
qed

section \<open>Coercion of the numeric columns\<close>

lemmas eval_defs =
  summarize_def summarize_cat_def summarize_product_def cat_keys_def cat_group_def
  product_keys_def product_group_def product_key_def nunique_def fsum_def fmean_def median_def
  notna_def replace0_def Let_def

lemma key_columns_ffill_category:
  "map (\<lambda>r. (r_category r, r_product_name r)) (ffill_category rs)
     = zip (ffill (map r_category rs)) (map r_product_name rs)"
  by (rule nth_equalityI) (simp_all add: nth_ffill_category)

lemma key_columns_cleaned:
  "map (\<lambda>r. (category r, product_name r)) (map (coerce_row parse) (filter keep_row xs))
     = filter (\<lambda>(c, n). n \<noteq> None \<and> \<not> str_contains marker_subtotal (astype_str c))
         (map (\<lambda>r. (r_category r, r_product_name r)) xs)"
  by (induction xs) (auto simp: keep_row_def)

lemma category_clean_notna: "p \<in> set (category_clean d) \<Longrightarrow> amount (fst p) \<noteq> NaN"
  by (auto simp: category_clean_def Let_def notna_def)

lemma parse_bad: "parse_digits [110, 47, 97] = None"
  by (simp add: parse_digits_def)

lemma category_clean_filled:
  "category_clean filled_cleaned = [(filled_cleaned ! 0, Some [65])]"
  by (simp add: category_clean_def filled_cleaned_def ffill_def notna_def has_marker_def
      marker_subtotal_def marker_total_def)

lemma analyze_filled:
  "analyze_by_category filled_cleaned
     = [\<lparr>cr_category = [65], cr_amount = Fin 1000, cr_profit = Fin 50, cr_rate = Fin 5\<rparr>]"
  unfolding analyze_by_category_def category_clean_filled
  by (simp add: filled_cleaned_def eval_defs round_half_even_def sort_values_desc_def fgt_def flt_def)

text \<open>
  Claim C6, as stated, fails for the table that \<open>analyze_by_category\<close> aggregates. The
  second product of the example sheet has a text in its amount cell. \<open>load_data\<close> keeps
  the row, with a missing amount and its profit 7; the cleaning of
  \<open>analyze_by_category\<close> drops that row, and its profit is not in the category's sum.
\<close>

theorem unparsed_amount_row_counterexample:
  "load_data parse_digits filled_sheet = Inr filled_cleaned
   \<and> amount (filled_cleaned ! 1) = NaN
   \<and> profit (filled_cleaned ! 1) = Fin 7
   \<and> map fst (category_clean filled_cleaned) = [filled_cleaned ! 0]
   \<and> map cr_profit (analyze_by_category filled_cleaned) = [Fin 50]"
  by (simp add: load_filled category_clean_filled analyze_filled) (simp add: filled_cleaned_def)

text \<open>
  Claim C6, amended. In \<open>load_data\<close> every numeric column is coerced cell by cell: a text
  that is not a number becomes the missing value in its own field, and the other fields
  of the row are what they would be without it. No row is dropped for its numeric
  cells: the rows of the cleaned table, by category and product name, are the rows of
  the filled sheet that have a product name and no subtotal marker, whatever their
  numeric cells hold. The cleaning inside \<open>analyze_by_category\<close> is different: no row
  with a missing amount reaches its aggregation.
\<close>

theorem coercion_is_cellwise:
  "(load_data parse sh = Inr df \<longrightarrow>
      df = map (coerce_row parse)
             (filter (\<lambda>r. r_product_name r \<noteq> None
                          \<and> \<not> str_contains marker_subtotal (astype_str (r_category r)))
                (ffill_category (sheet_rows sh)))
      \<and> map (\<lambda>r. (category r, product_name r)) df
          = filter (\<lambda>(c, n). n \<noteq> None \<and> \<not> str_contains marker_subtotal (astype_str c))
              (zip (ffill (map r_category (sheet_rows sh)))
                   (map r_product_name (sheet_rows sh))))
   \<and> (parse s = None \<longrightarrow>
        to_numeric parse (RText s) = NaN
        \<and> coerce_row parse (r\<lparr>r_amount := RText s\<rparr>) = (coerce_row parse r)\<lparr>amount := NaN\<rparr>
        \<and> coerce_row parse (r\<lparr>r_profit := RText s\<rparr>) = (coerce_row parse r)\<lparr>profit := NaN\<rparr>
        \<and> coerce_row parse (r\<lparr>r_margin_rate := RText s\<rparr>)
            = (coerce_row parse r)\<lparr>margin_rate := NaN\<rparr>
        \<and> coerce_row parse (r\<lparr>r_contribution := RText s\<rparr>)
            = (coerce_row parse r)\<lparr>contribution := NaN\<rparr>)
   \<and> (p \<in> set (category_clean d) \<longrightarrow> amount (fst p) \<noteq> NaN)"
proof (intro conjI impI)
  assume l: "load_data parse sh = Inr df"
  then have df: "df = map (coerce_row parse) (filter keep_row (ffill_category (sheet_rows sh)))"
    by (rule load_data_Inr)
  then show "df = map (coerce_row parse)
             (filter (\<lambda>r. r_product_name r \<noteq> None
                          \<and> \<not> str_contains marker_subtotal (astype_str (r_category r)))
                (ffill_category (sheet_rows sh)))"
    by (simp add: keep_row_def[abs_def])
  show "map (\<lambda>r. (category r, product_name r)) df
          = filter (\<lambda>(c, n). n \<noteq> None \<and> \<not> str_contains marker_subtotal (astype_str c))
              (zip (ffill (map r_category (sheet_rows sh)))
                   (map r_product_name (sheet_rows sh)))"
    unfolding df key_columns_cleaned key_columns_ffill_category ..
next
  assume "parse s = None"
  then show "to_numeric parse (RText s) = NaN"
    by (simp add: to_numeric_def)
next
  assume "parse s = None"
  then show "coerce_row parse (r\<lparr>r_amount := RText s\<rparr>) = (coerce_row parse r)\<lparr>amount := NaN\<rparr>"
    by (simp add: coerce_row_def to_numeric_def)
next
  assume "parse s = None"
  then show "coerce_row parse (r\<lparr>r_profit := RText s\<rparr>) = (coerce_row parse r)\<lparr>profit := NaN\<rparr>"
    by (simp add: coerce_row_def to_numeric_def)
next
  assume "parse s = None"
  then show "coerce_row parse (r\<lparr>r_margin_rate := RText s\<rparr>)
            = (coerce_row parse r)\<lparr>margin_rate := NaN\<rparr>"
    by (simp add: coerce_row_def to_numeric_def)
next
  assume "parse s = None"
  then show "coerce_row parse (r\<lparr>r_contribution := RText s\<rparr>)
            = (coerce_row parse r)\<lparr>contribution := NaN\<rparr>"
    by (simp add: coerce_row_def to_numeric_def)
next
  assume "p \<in> set (category_clean d)"
  then show "amount (fst p) \<noteq> NaN"
    by (rule category_clean_notna)
qed

theorem coercion_is_cellwise_witness:
  "load_data parse_digits filled_sheet = Inr filled_cleaned
   \<and> parse_digits [110, 47, 97] = None
   \<and> (hd filled_cleaned, Some [65]) \<in> set (category_clean filled_cleaned)
   \<and> map product_name filled_cleaned = [Some [112, 49], Some [112, 50]]
   \<and> map amount filled_cleaned = [Fin 1000, NaN]
   \<and> map profit filled_cleaned = [Fin 50, Fin 7]
   \<and> coerce_row parse_digits ((hd (sheet_rows headless_sheet))\<lparr>r_amount := RText [110, 47, 97]\<rparr>)
       = (coerce_row parse_digits (hd (sheet_rows headless_sheet)))\<lparr>amount := NaN\<rparr>
   \<and> amount (hd filled_cleaned) \<noteq> NaN"
proof -
  note inst = coercion_is_cellwise [of parse_digits filled_sheet filled_cleaned "[110, 47, 97]"
      "hd (sheet_rows headless_sheet)" "(hd filled_cleaned, Some [65])" filled_cleaned]
  have m: "(hd filled_cleaned, Some [65]) \<in> set (category_clean filled_cleaned)"
    by (simp add: category_clean_filled) (simp add: filled_cleaned_def)
  have e: "map product_name filled_cleaned = [Some [112, 49], Some [112, 50]]
           \<and> map amount filled_cleaned = [Fin 1000, NaN]
           \<and> map profit filled_cleaned = [Fin 50, Fin 7]"
    by (simp add: filled_cleaned_def)
  have c: "coerce_row parse_digits
             ((hd (sheet_rows headless_sheet))\<lparr>r_amount := RText [110, 47, 97]\<rparr>)
           = (coerce_row parse_digits (hd (sheet_rows headless_sheet)))\<lparr>amount := NaN\<rparr>"
    using inst parse_bad by blast
  have a: "amount (fst (hd filled_cleaned, Some [65::nat])) \<noteq> NaN"
    using inst m by blast
  show ?thesis
    using load_filled parse_bad m e c a by simp
qed

section \<open>The marker filters\<close>

lemma load_total: "load_data parse_digits total_sheet = Inr [total_row]"
  by (simp add: load_data_def total_sheet_def total_row_def ffill_category_def ffill_def
      astype_str_def marker_subtotal_def marker_total_def coerce_row_def to_numeric_def
      all_columns_def NUMERIC_COLS_def)

lemma summarize_total:
  "fst (summarize [total_row])
     = [\<lparr>cs_category = marker_total, cs_sales_amount = Fin 100, cs_gross_profit = Fin 5,
         cs_avg_margin_rate = Fin (5 / 100), cs_median_margin_rate = Fin (5 / 100),
         cs_sku_count = 1, cs_realized_margin_rate = Fin (5 / 100)\<rparr>]"
  by (simp add: total_row_def eval_defs)

text \<open>
  Claim C4 at a sheet with a product row whose category is the grand-total marker.
  \<open>load_data\<close> tests the subtotal marker only: the row is in the cleaned table and the
  category summary has a row for the marker, with the row's amount. The cleaning of
  \<open>analyze_by_category\<close>, which tests both markers, drops the same row.
\<close>

theorem total_marker_row_is_kept:
  "load_data parse_digits total_sheet = Inr [total_row]
   \<and> str_contains marker_total (astype_str (category total_row))
   \<and> map cs_category (fst (summarize [total_row])) = [marker_total]
   \<and> map cs_sales_amount (fst (summarize [total_row])) = [Fin 100]
   \<and> category_clean [total_row] = []"
  by (simp add: load_total summarize_total)
     (simp add: total_row_def astype_str_def marker_total_def category_clean_def ffill_def
        notna_def has_marker_def)

section \<open>The aggregator\<close>

lemma summarize_signed:
  "summarize signed_df =
    ([\<lparr>cs_category = [65], cs_sales_amount = Fin 0, cs_gross_profit = Fin 5,
       cs_avg_margin_rate = Fin (1 / 10), cs_median_margin_rate = Fin (1 / 10),
       cs_sku_count = 1, cs_realized_margin_rate = PInf\<rparr>,
      \<lparr>cs_category = [66], cs_sales_amount = Fin (- 100), cs_gross_profit = Fin (- 10),
       cs_avg_margin_rate = Fin (1 / 10), cs_median_margin_rate = Fin (1 / 10),
       cs_sku_count = 1, cs_realized_margin_rate = Fin (1 / 10)\<rparr>],
     [\<lparr>ps_category = [65], ps_product_name = [112, 49], ps_sales_amount = Fin 0,
       ps_gross_profit = Fin 5, ps_avg_margin_rate = Fin (1 / 10),
       ps_realized_margin_rate = Fin 0\<rparr>,
      \<lparr>ps_category = [66], ps_product_name = [112, 50], ps_sales_amount = Fin (- 100),
       ps_gross_profit = Fin (- 10), ps_avg_margin_rate = Fin (1 / 10),
       ps_realized_margin_rate = Fin (1 / 10)\<rparr>])"
  by (simp add: signed_df_def eval_defs)

lemma summarize_unparsed_rate:
  "summarize [unparsed_rate_row] =
    ([\<lparr>cs_category = [65], cs_sales_amount = Fin 100, cs_gross_profit = Fin 5,
       cs_avg_margin_rate = NaN, cs_median_margin_rate = NaN,
       cs_sku_count = 1, cs_realized_margin_rate = Fin (5 / 100)\<rparr>],
     [\<lparr>ps_category = [65], ps_product_name = [112, 49], ps_sales_amount = Fin 100,
       ps_gross_profit = Fin 5, ps_avg_margin_rate = NaN,
       ps_realized_margin_rate = Fin (5 / 100)\<rparr>])"
  by (simp add: unparsed_rate_row_def eval_defs)

lemma load_unparsed_rate: "load_data parse_digits unparsed_rate_sheet = Inr [unparsed_rate_row]"
  by (simp add: load_data_def unparsed_rate_sheet_def unparsed_rate_row_def ffill_category_def
      ffill_def astype_str_def marker_subtotal_def coerce_row_def to_numeric_def
      all_columns_def NUMERIC_COLS_def parse_digits_def)

lemma summarize_headless: "fst (summarize [headless_cleaned]) = []"
  by (simp add: headless_cleaned_def eval_defs)


lemma set_map_filter_eq: "set (List.map_filter f xs) = {y. \<exists>x\<in>set xs. f x = Some y}"
  by (induction xs) (auto split: option.splits)

lemma set_cat_keys: "set (cat_keys df) = {k. \<exists>r\<in>set df. category r = Some k}"
  by (auto simp: cat_keys_def set_map_filter_eq)

lemma distinct_cat_keys: "distinct (cat_keys df)"
  by (simp add: cat_keys_def)

lemma set_product_keys: "set (product_keys df) = {k. \<exists>r\<in>set df. product_key r = Some k}"
  by (auto simp: product_keys_def set_map_filter_eq)

lemma fdiv_Fin: "a \<noteq> 0 \<Longrightarrow> fdiv (Fin x) (Fin a) = Fin (x / a)"
  by simp

lemma fdiv_zero_not_finite: "\<not> isfinite (fdiv x (Fin 0))"
  by (cases x) (auto simp: isfinite_def)

lemma replace0_finite: "isfinite x \<Longrightarrow> replace0 x = x"
  by (cases x) (auto simp: replace0_def isfinite_def)

lemma replace0_infinite: "x = PInf \<or> x = NInf \<Longrightarrow> replace0 x = Fin 0"
  by (auto simp: replace0_def)

lemma fdiv_zero_infinite: "x \<noteq> 0 \<Longrightarrow> fdiv (Fin x) (Fin 0) = PInf \<or> fdiv (Fin x) (Fin 0) = NInf"
  by auto

text \<open>
  Claim C1, as stated, fails. In the example the sales sum of category "A" is 0 and its
  gross-profit sum 5: the Category Summary holds the infinite quotient, not 0. The sums
  of category "B" are negative (returns): both summaries hold the quotient 1/10, where
  the claim, whose quotient is for positive sales sums only, says 0.
\<close>

theorem realized_rate_counterexample:
  "map cs_sales_amount (fst (summarize signed_df)) = [Fin 0, Fin (- 100)]
   \<and> map cs_gross_profit (fst (summarize signed_df)) = [Fin 5, Fin (- 10)]
   \<and> map cs_realized_margin_rate (fst (summarize signed_df)) = [PInf, Fin (1 / 10)]
   \<and> map ps_realized_margin_rate (snd (summarize signed_df)) = [Fin 0, Fin (1 / 10)]
   \<and> claimed_rate (Fin 5) (Fin 0) = Fin 0
   \<and> claimed_rate (Fin (- 10)) (Fin (- 100)) = Fin 0"
  by (simp add: summarize_signed claimed_rate_def fgt_def flt_def)

text \<open>
  Claim C1, amended. The sums of a summary row are the sums over the rows of its group.
  In the Category Summary the rate is the quotient of the gross-profit sum by the sales
  sum whenever the sales sum is not zero. In the Product Summary the rate is that
  quotient whenever it is finite, and 0 whenever it is infinite. For finite sums and a
  sales sum other than zero, positive or negative, the quotient is the real quotient;
  a quotient by a zero sales sum is never finite, and it is infinite when the
  gross-profit sum is a number other than zero.
\<close>

theorem realized_margin_rate_of_groups:
  "(\<forall>s\<in>set (fst (summarize df)).
      (let g = cat_group df (cs_category s);
           gp = fsum (map profit g); sa = fsum (map amount g)
       in cs_gross_profit s = gp \<and> cs_sales_amount s = sa
          \<and> (sa \<noteq> Fin 0 \<longrightarrow> cs_realized_margin_rate s = fdiv gp sa)))
   \<and> (\<forall>p\<in>set (snd (summarize df)).
      (let g = product_group df (ps_category p, ps_product_name p);
           gp = fsum (map profit g); sa = fsum (map amount g)
       in (isfinite (fdiv gp sa) \<longrightarrow> ps_realized_margin_rate p = fdiv gp sa)
          \<and> (fdiv gp sa = PInf \<or> fdiv gp sa = NInf \<longrightarrow> ps_realized_margin_rate p = Fin 0)))
   \<and> (\<forall>x a. a \<noteq> 0 \<longrightarrow> fdiv (Fin x) (Fin a) = Fin (x / a))
   \<and> (\<forall>x. \<not> isfinite (fdiv x (Fin 0)))
   \<and> (\<forall>x. x \<noteq> 0 \<longrightarrow> fdiv (Fin x) (Fin 0) = PInf \<or> fdiv (Fin x) (Fin 0) = NInf)"
proof (intro conjI ballI allI impI)
  fix s assume "s \<in> set (fst (summarize df))"
  then obtain k where "s = \<lparr>cs_category = k, cs_sales_amount = fsum (map amount (cat_group df k)),
      cs_gross_profit = fsum (map profit (cat_group df k)),
      cs_avg_margin_rate = fmean (map margin_rate (cat_group df k)),
      cs_median_margin_rate = median (map margin_rate (cat_group df k)),
      cs_sku_count = nunique (map product_name (cat_group df k)),
      cs_realized_margin_rate = fdiv (fsum (map profit (cat_group df k)))
                                     (fsum (map amount (cat_group df k)))\<rparr>"
    by (auto simp: summarize_def summarize_cat_def Let_def)
  then show "let g = cat_group df (cs_category s);
           gp = fsum (map profit g); sa = fsum (map amount g)
       in cs_gross_profit s = gp \<and> cs_sales_amount s = sa
          \<and> (sa \<noteq> Fin 0 \<longrightarrow> cs_realized_margin_rate s = fdiv gp sa)"
    by (simp add: Let_def)
next
  fix p assume "p \<in> set (snd (summarize df))"
  then obtain k where p: "p = \<lparr>ps_category = fst k, ps_product_name = snd k,
      ps_sales_amount = replace0 (fsum (map amount (product_group df k))),
      ps_gross_profit = replace0 (fsum (map profit (product_group df k))),
      ps_avg_margin_rate = replace0 (fmean (map margin_rate (product_group df k))),
      ps_realized_margin_rate = replace0 (fdiv (fsum (map profit (product_group df k)))
                                     (fsum (map amount (product_group df k))))\<rparr>"
    by (auto simp: summarize_def summarize_product_def Let_def)
  show "let g = product_group df (ps_category p, ps_product_name p);
           gp = fsum (map profit g); sa = fsum (map amount g)
       in (isfinite (fdiv gp sa) \<longrightarrow> ps_realized_margin_rate p = fdiv gp sa)
          \<and> (fdiv gp sa = PInf \<or> fdiv gp sa = NInf \<longrightarrow> ps_realized_margin_rate p = Fin 0)"
    unfolding Let_def p by (auto simp: replace0_finite replace0_infinite)
next
  fix x a :: real assume "a \<noteq> 0"
  then show "fdiv (Fin x) (Fin a) = Fin (x / a)" by simp
next
  fix x show "\<not> isfinite (fdiv x (Fin 0))" by (rule fdiv_zero_not_finite)
next
  fix x :: real assume "x \<noteq> 0"
  then show "fdiv (Fin x) (Fin 0) = PInf \<or> fdiv (Fin x) (Fin 0) = NInf"
    by (rule fdiv_zero_infinite)
qed

theorem realized_margin_rate_of_groups_witness:
  "last (fst (summarize signed_df)) \<in> set (fst (summarize signed_df))
   \<and> fsum (map amount (cat_group signed_df (cs_category (last (fst (summarize signed_df))))))
       \<noteq> Fin 0
   \<and> cs_realized_margin_rate (last (fst (summarize signed_df))) = Fin (1 / 10)
   \<and> hd (snd (summarize signed_df)) \<in> set (snd (summarize signed_df))
   \<and> fdiv (fsum (map profit (product_group signed_df ([65], [112, 49]))))
           (fsum (map amount (product_group signed_df ([65], [112, 49])))) = PInf
   \<and> ps_realized_margin_rate (hd (snd (summarize signed_df))) = Fin 0
   \<and> last (snd (summarize signed_df)) \<in> set (snd (summarize signed_df))
   \<and> isfinite (fdiv (fsum (map profit (product_group signed_df ([66], [112, 50]))))
                     (fsum (map amount (product_group signed_df ([66], [112, 50])))))
   \<and> ps_realized_margin_rate (last (snd (summarize signed_df))) = Fin (1 / 10)
   \<and> fdiv (Fin (- 10)) (Fin (- 100)) = Fin (1 / 10)
   \<and> \<not> isfinite (fdiv (Fin 5) (Fin 0))"
proof -
  note inst = realized_margin_rate_of_groups [of signed_df]
  have m1: "last (fst (summarize signed_df)) \<in> set (fst (summarize signed_df))"
    by (simp add: summarize_signed)
  have m2: "hd (snd (summarize signed_df)) \<in> set (snd (summarize signed_df))"
    by (simp add: summarize_signed)
  have m3: "last (snd (summarize signed_df)) \<in> set (snd (summarize signed_df))"
    by (simp add: summarize_signed)
  have k1: "cs_category (last (fst (summarize signed_df))) = [66]"
    by (simp add: summarize_signed)
  have k2: "(ps_category (hd (snd (summarize signed_df))),
             ps_product_name (hd (snd (summarize signed_df)))) = ([65], [112, 49])"
    by (simp add: summarize_signed)
  have k3: "(ps_category (last (snd (summarize signed_df))),
             ps_product_name (last (snd (summarize signed_df)))) = ([66], [112, 50])"
    by (simp add: summarize_signed)
  have g1: "fsum (map amount (cat_group signed_df [66])) = Fin (- 100)
            \<and> fsum (map profit (cat_group signed_df [66])) = Fin (- 10)"
    by (simp add: signed_df_def cat_group_def fsum_def notna_def)
  have g2: "fsum (map amount (product_group signed_df ([65], [112, 49]))) = Fin 0
            \<and> fsum (map profit (product_group signed_df ([65], [112, 49]))) = Fin 5"
    by (simp add: signed_df_def product_group_def product_key_def fsum_def notna_def)
  have g3: "fsum (map amount (product_group signed_df ([66], [112, 50]))) = Fin (- 100)
            \<and> fsum (map profit (product_group signed_df ([66], [112, 50]))) = Fin (- 10)"
    by (simp add: signed_df_def product_group_def product_key_def fsum_def notna_def)
  have c: "cs_realized_margin_rate (last (fst (summarize signed_df))) = Fin (1 / 10)"
    using inst [THEN conjunct1, rule_format, OF m1] unfolding Let_def k1 by (simp add: g1)
  have p: "ps_realized_margin_rate (hd (snd (summarize signed_df))) = Fin 0"
    using inst [THEN conjunct2, THEN conjunct1, rule_format, OF m2] unfolding Let_def k2
    by (simp add: g2)
  have q: "ps_realized_margin_rate (last (snd (summarize signed_df))) = Fin (1 / 10)"
    using inst [THEN conjunct2, THEN conjunct1, rule_format, OF m3] unfolding Let_def k3
    by (simp add: g3 isfinite_def)
  show ?thesis
    using m1 m2 m3 c p q by (simp add: k1 g1 g2 g3 isfinite_def)
qed

lemma fadd_commute: "fadd a b = fadd b a"
  by (cases a; cases b) simp_all

lemma fadd_assoc: "fadd (fadd a b) c = fadd a (fadd b c)"
  by (cases a; cases b; cases c) simp_all

lemma fadd_left_commute: "fadd a (fadd b c) = fadd b (fadd a c)"
  by (cases a; cases b; cases c) simp_all

lemma fadd_zero [simp]: "fadd (Fin 0) a = a" "fadd a (Fin 0) = a"
  by (cases a; simp)+

lemma isum_zeros: "isum (map (\<lambda>k. Fin 0) ks) = Fin 0"
  by (induction ks) simp_all

lemma isum_inf_iff:
  "NaN \<notin> set xs \<Longrightarrow> \<not> (PInf \<in> set xs \<and> NInf \<in> set xs) \<Longrightarrow>
   (isum xs = PInf \<longleftrightarrow> PInf \<in> set xs) \<and> (isum xs = NInf \<longleftrightarrow> NInf \<in> set xs)
   \<and> isum xs \<noteq> NaN"
proof (induction xs)
  case Nil
  then show ?case by simp
next
  case (Cons x xs)
  then have ih: "(isum xs = PInf \<longleftrightarrow> PInf \<in> set xs) \<and> (isum xs = NInf \<longleftrightarrow> NInf \<in> set xs)
   \<and> isum xs \<noteq> NaN" by auto
  show ?case
    using Cons.prems ih by (cases x; cases "isum xs") auto
qed

lemma fsum_notna:
  "\<not> (PInf \<in> set xs \<and> NInf \<in> set xs) \<Longrightarrow> fsum xs \<noteq> NaN"
  using isum_inf_iff[of "filter notna xs"] by (auto simp: fsum_def notna_def)

lemma group_sums_step:
  assumes "distinct ks"
  shows "isum (map (\<lambda>k. fsum (map f (filter (\<lambda>r. key r = Some k) (r0 # df)))) ks)
         = (if (\<exists>k\<in>set ks. key r0 = Some k) \<and> notna (f r0)
            then fadd (f r0) (isum (map (\<lambda>k. fsum (map f (filter (\<lambda>r. key r = Some k) df))) ks))
            else isum (map (\<lambda>k. fsum (map f (filter (\<lambda>r. key r = Some k) df))) ks))"
  using assms
proof (induction ks)
  case Nil
  then show ?case by simp
next
  case (Cons k ks)
  then show ?case
    by (auto simp: fsum_def fadd_assoc fadd_left_commute)
qed

lemma group_sums_total:
  assumes "distinct ks" and "\<forall>r\<in>set df. \<exists>k\<in>set ks. key r = Some k"
  shows "isum (map (\<lambda>k. fsum (map f (filter (\<lambda>r. key r = Some k) df))) ks) = fsum (map f df)"
  using assms(2)
proof (induction df)
  case Nil
  then show ?case by (simp add: fsum_def isum_zeros)
next
  case (Cons r0 df)
  then have ih: "isum (map (\<lambda>k. fsum (map f (filter (\<lambda>r. key r = Some k) df))) ks) = fsum (map f df)"
    by simp
  have "\<exists>k\<in>set ks. key r0 = Some k" using Cons.prems by simp
  then show ?case
    unfolding group_sums_step[OF assms(1)] ih by (simp add: fsum_def)
qed


text \<open>
  Claim C2, as stated, fails when a cleaned row has no category: \<open>groupby\<close> leaves the
  row out of every group, and its amount is in no row of the Category Summary.
\<close>

theorem null_category_breaks_conservation:
  "load_data parse_digits headless_sheet = Inr [headless_cleaned]
   \<and> fsum (map cs_sales_amount (fst (summarize [headless_cleaned]))) = Fin 0
   \<and> fsum (map amount [headless_cleaned]) = Fin 100"
  by (simp add: summarize_headless)
     (simp add: load_data_def headless_sheet_def headless_cleaned_def ffill_category_def
      ffill_def astype_str_def marker_subtotal_def coerce_row_def to_numeric_def
      all_columns_def NUMERIC_COLS_def fsum_def notna_def)

text \<open>
  Claim C2, amended. When every row of the cleaned table has a category, and the amounts
  do not hold infinities of both signs, the sum of the sales amounts of the Category
  Summary is the sum of the amounts of the cleaned table (both sums skip missing cells,
  as \<open>sum\<close> does; the arithmetic is exact).
\<close>

theorem sales_amount_conservation:
  assumes "\<forall>r\<in>set df. category r \<noteq> None"
    and "\<not> (PInf \<in> set (map amount df) \<and> NInf \<in> set (map amount df))"
  shows "fsum (map cs_sales_amount (fst (summarize df))) = fsum (map amount df)"
proof -
  let ?g = "\<lambda>k. fsum (map amount (filter (\<lambda>r. category r = Some k) df))"
  have cols: "map cs_sales_amount (fst (summarize df)) = map ?g (cat_keys df)"
    by (simp add: summarize_def summarize_cat_def cat_group_def Let_def o_def)
  have "\<And>k. ?g k \<noteq> NaN"
  proof -
    fix k
    have "set (map amount (filter (\<lambda>r. category r = Some k) df)) \<subseteq> set (map amount df)"
      by auto
    then have "\<not> (PInf \<in> set (map amount (filter (\<lambda>r. category r = Some k) df))
              \<and> NInf \<in> set (map amount (filter (\<lambda>r. category r = Some k) df)))"
      using assms(2) by blast
    then show "?g k \<noteq> NaN" by (rule fsum_notna)
  qed
  then have "filter notna (map ?g (cat_keys df)) = map ?g (cat_keys df)"
    by (simp add: notna_def)
  then have "fsum (map ?g (cat_keys df)) = isum (map ?g (cat_keys df))"
    by (simp add: fsum_def)
  also have "\<dots> = fsum (map amount df)"
  proof (rule group_sums_total)
    show "distinct (cat_keys df)" by (rule distinct_cat_keys)
    show "\<forall>r\<in>set df. \<exists>k\<in>set (cat_keys df). category r = Some k"
      using assms(1) unfolding set_cat_keys by fastforce
  qed
  finally show ?thesis by (simp only: cols)
qed

theorem sales_amount_conservation_witness:
  "None \<notin> set (map category signed_df)
   \<and> \<not> (PInf \<in> set (map amount signed_df) \<and> NInf \<in> set (map amount signed_df))
   \<and> fsum (map cs_sales_amount (fst (summarize signed_df))) = fsum (map amount signed_df)
   \<and> fsum (map amount signed_df) = Fin (- 100)"
proof -
  have 1: "\<forall>r\<in>set signed_df. category r \<noteq> None"
    by (simp add: signed_df_def)
  have 2: "\<not> (PInf \<in> set (map amount signed_df) \<and> NInf \<in> set (map amount signed_df))"
    by (simp add: signed_df_def)
  have 3: "None \<notin> set (map category signed_df)"
    by (simp add: signed_df_def)
  have 4: "fsum (map amount signed_df) = Fin (- 100)"
    by (simp add: signed_df_def fsum_def notna_def)
  show ?thesis
    using sales_amount_conservation [OF 1 2] 2 3 4 by simp
qed

text \<open>
  Claim C10 at a sheet with one product whose margin-rate cell is not a number. The
  loader makes the cell missing; the mean of the group is missing, and the Product
  Summary keeps it missing, where the claim says 0: the \<open>replace\<close> of \<open>summarize\<close> turns
  the infinities of the Product Summary into 0 (the rate 5/0 of the other example) and
  leaves its missing cells. The Category Summary goes through no \<open>replace\<close>.
\<close>

theorem product_summary_keeps_missing:
  "load_data parse_digits unparsed_rate_sheet = Inr [unparsed_rate_row]
   \<and> margin_rate unparsed_rate_row = NaN
   \<and> snd (summarize [unparsed_rate_row])
       = [\<lparr>ps_category = [65], ps_product_name = [112, 49], ps_sales_amount = Fin 100,
           ps_gross_profit = Fin 5, ps_avg_margin_rate = NaN,
           ps_realized_margin_rate = Fin (5 / 100)\<rparr>]
   \<and> map cs_avg_margin_rate (fst (summarize [unparsed_rate_row])) = [NaN]
   \<and> map cs_realized_margin_rate (fst (summarize signed_df)) = [PInf, Fin (1 / 10)]
   \<and> map ps_realized_margin_rate (snd (summarize signed_df)) = [Fin 0, Fin (1 / 10)]"
  by (simp add: load_unparsed_rate summarize_unparsed_rate summarize_signed)
     (simp add: unparsed_rate_row_def)

end
